theory Spec2Isabelle
  imports Main
begin

section \<open>The relational schema of \<^verbatim>\<open>backend/app.py\<close>\<close>

text \<open>
  The program is one Python module, \<^verbatim>\<open>backend/app.py\<close>. At import it reads its
  configuration from the process environment, runs \<^verbatim>\<open>setup_database()\<close> once, and
  registers thirteen method+path routes on a Flask application.

  The four \<^verbatim>\<open>CREATE TABLE IF NOT EXISTS\<close> statements of \<^verbatim>\<open>setup_database\<close> are
  SQL text in the source. They are transcribed here as structured values, one column
  per line of the statement, in the order of the source.
\<close>

datatype sql_type = SERIAL | VARCHAR nat | INTEGER | TIMESTAMP | BOOLEAN | TEXT | JSONB

datatype default_expr = DInt int | DBool bool | CURRENT_TIMESTAMP

datatype col_constraint =
    PRIMARY_KEY
  | NOT_NULL
  | UNIQUE
  | DEFAULT default_expr
  | REFERENCES_ON_DELETE_CASCADE string string

type_synonym column = "string \<times> sql_type \<times> col_constraint list"

datatype command = CREATE_TABLE_IF_NOT_EXISTS string "column list"

text \<open>A catalog lists the tables of a database: name and columns, oldest first.\<close>

type_synonym catalog = "(string \<times> column list) list"

definition commands :: "command list" where
  "commands =
    [CREATE_TABLE_IF_NOT_EXISTS ''users''
       [(''id'', SERIAL, [PRIMARY_KEY]),
        (''name'', VARCHAR 100, [NOT_NULL]),
        (''phone'', VARCHAR 11, [UNIQUE, NOT_NULL]),
        (''password_hash'', VARCHAR 255, [NOT_NULL]),
        (''school'', VARCHAR 100, []),
        (''points'', INTEGER, [DEFAULT (DInt 0)]),
        (''level'', INTEGER, [DEFAULT (DInt 1)]),
        (''created_at'', TIMESTAMP, [DEFAULT CURRENT_TIMESTAMP])],
     CREATE_TABLE_IF_NOT_EXISTS ''question_sets''
       [(''id'', SERIAL, [PRIMARY_KEY]),
        (''name'', VARCHAR 255, [NOT_NULL]),
        (''category'', VARCHAR 50, [NOT_NULL]),
        (''is_active'', BOOLEAN, [DEFAULT (DBool False)]),
        (''exam_time_minutes'', INTEGER, [DEFAULT (DInt 30)]),
        (''created_at'', TIMESTAMP, [DEFAULT CURRENT_TIMESTAMP])],
     CREATE_TABLE_IF_NOT_EXISTS ''questions''
       [(''id'', SERIAL, [PRIMARY_KEY]),
        (''set_id'', INTEGER, [REFERENCES_ON_DELETE_CASCADE ''question_sets'' ''id'']),
        (''question_text'', TEXT, [NOT_NULL]),
        (''options'', JSONB, [NOT_NULL]),
        (''correct_option'', VARCHAR 255, [NOT_NULL])],
     CREATE_TABLE_IF_NOT_EXISTS ''results''
       [(''id'', SERIAL, [PRIMARY_KEY]),
        (''user_id'', INTEGER, [REFERENCES_ON_DELETE_CASCADE ''users'' ''id'']),
        (''set_id'', INTEGER, [REFERENCES_ON_DELETE_CASCADE ''question_sets'' ''id'']),
        (''score'', INTEGER, [NOT_NULL]),
        (''total_marks'', INTEGER, [NOT_NULL]),
        (''submitted_at'', TIMESTAMP, [DEFAULT CURRENT_TIMESTAMP])]]"

section \<open>The world outside the module\<close>

text \<open>
  What the module can observe and change: whether the database server accepts
  connections, the committed catalog of the database, and the lines printed to
  standard output (newest last).
\<close>

record world =
  reachable :: bool
  database :: catalog
  stdout :: "string list"

definition print :: "string \<Rightarrow> world \<Rightarrow> world" where
  "print line w = w\<lparr>stdout := stdout w @ [line]\<rparr>"

datatype error =
    TypeError string
  | OperationalError string
  | InterfaceError string
  | ProgrammingError string
  | InFailedSqlTransaction string

fun str_error :: "error \<Rightarrow> string" where
  "str_error (TypeError m) = m"
| "str_error (OperationalError m) = m"
| "str_error (InterfaceError m) = m"
| "str_error (ProgrammingError m) = m"
| "str_error (InFailedSqlTransaction m) = m"

section \<open>Configuration from the environment\<close>

text \<open>
  \<^verbatim>\<open>os.environ\<close> after \<^verbatim>\<open>load_dotenv()\<close>, as a list of name/value pairs; a lookup
  takes the first pair with the name. \<^verbatim>\<open>os.environ.get(key)\<close> is \<open>None\<close> when the
  name is absent, and \<^verbatim>\<open>os.environ.get(key, default)\<close> is the default then.
\<close>

type_synonym environ = "(string \<times> string) list"

definition environ_get :: "environ \<Rightarrow> string \<Rightarrow> string option" where
  "environ_get env key = map_of env key"



definition DATABASE_URL :: "environ \<Rightarrow> string option" where
  "DATABASE_URL env = environ_get env ''DATABASE_URL''"

section \<open>The database server and its driver\<close>

text \<open>
  The program talks to a PostgreSQL server through the psycopg2 driver; neither is part
  of the repository. Their behaviour is modelled as documented, as far as
  \<^verbatim>\<open>setup_database\<close> uses it:
  \<^item> \<^verbatim>\<open>CREATE TABLE IF NOT EXISTS\<close> on a name that exists is skipped with a notice;
    otherwise the table is created, unless a column is declared twice, the table has
    two primary keys, or a foreign key names a table or column that does not exist, a
    column that is neither a primary key nor unique, or a column of another type family;
  \<^item> the driver opens a transaction at the first statement; data definition is
    transactional; a statement that fails leaves the transaction aborted, every
    further statement in it is refused, and committing an aborted transaction ends it
    as a rollback, without an error;
  \<^item> operations on a closed cursor or connection raise \<^verbatim>\<open>InterfaceError\<close>;
  \<^item> a connection, once made, stays up until the program closes it, and no other
    client changes the database meanwhile.
\<close>

fun type_family :: "sql_type \<Rightarrow> nat" where
  "type_family SERIAL = 0"
| "type_family INTEGER = 0"
| "type_family (VARCHAR n) = 1"
| "type_family TEXT = 1"
| "type_family TIMESTAMP = 2"
| "type_family BOOLEAN = 3"
| "type_family JSONB = 4"

definition is_key :: "col_constraint list \<Rightarrow> bool" where
  "is_key cs = (PRIMARY_KEY \<in> set cs \<or> UNIQUE \<in> set cs)"

fun check_constraint :: "catalog \<Rightarrow> sql_type \<Rightarrow> col_constraint \<Rightarrow> error option" where
  "check_constraint cat ty (REFERENCES_ON_DELETE_CASCADE t c) =
     (case map_of cat t of
        None \<Rightarrow> Some (ProgrammingError (''relation '' @ t @ '' does not exist''))
      | Some cols \<Rightarrow>
          (case map_of cols c of
             None \<Rightarrow> Some (ProgrammingError
               (''column '' @ c @ '' referenced in foreign key constraint does not exist''))
           | Some (ty', cs) \<Rightarrow>
               if \<not> is_key cs then Some (ProgrammingError
                 (''there is no unique constraint matching given keys for referenced table '' @ t))
               else if type_family ty \<noteq> type_family ty' then Some (ProgrammingError
                 ''foreign key constraint cannot be implemented'')
               else None))"
| "check_constraint cat ty _ = None"

fun check_constraints :: "catalog \<Rightarrow> sql_type \<Rightarrow> col_constraint list \<Rightarrow> error option" where
  "check_constraints cat ty [] = None"
| "check_constraints cat ty (k # ks) =
     (case check_constraint cat ty k of
        Some e \<Rightarrow> Some e
      | None \<Rightarrow> check_constraints cat ty ks)"

fun check_columns :: "catalog \<Rightarrow> column list \<Rightarrow> error option" where
  "check_columns cat [] = None"
| "check_columns cat ((n, ty, ks) # cols) =
     (case check_constraints cat ty ks of
        Some e \<Rightarrow> Some e
      | None \<Rightarrow> check_columns cat cols)"

definition primary_keys :: "column list \<Rightarrow> nat" where
  "primary_keys cols = length (filter (\<lambda>(n, ty, ks). PRIMARY_KEY \<in> set ks) cols)"

fun pg_execute :: "command \<Rightarrow> catalog \<Rightarrow> error + catalog" where
  "pg_execute (CREATE_TABLE_IF_NOT_EXISTS name cols) cat =
     (if map_of cat name \<noteq> None then Inr cat
      else if \<not> distinct (map fst cols) then
        Inl (ProgrammingError ''column specified more than once'')
      else if 1 < primary_keys cols then
        Inl (ProgrammingError (''multiple primary keys for table '' @ name @ '' are not allowed''))
      else
        (case check_columns (cat @ [(name, cols)]) cols of
           Some e \<Rightarrow> Inl e
         | None \<Rightarrow> Inr (cat @ [(name, cols)])))"

datatype tx_status = Idle | InTransaction catalog | Aborted

record connection =
  closed :: bool
  tx :: tx_status

record cursor =
  cur_closed :: bool

definition psycopg2_connect :: "string option \<Rightarrow> world \<Rightarrow> error + connection" where
  "psycopg2_connect dsn w =
     (case dsn of
        None \<Rightarrow> Inl (TypeError ''missing dsn and no parameters'')
      | Some url \<Rightarrow>
          if reachable w then Inr \<lparr>closed = False, tx = Idle\<rparr>
          else Inl (OperationalError ''could not connect to server''))"

definition conn_cursor :: "connection \<Rightarrow> error + cursor" where
  "conn_cursor conn =
     (if closed conn then Inl (InterfaceError ''connection already closed'')
      else Inr \<lparr>cur_closed = False\<rparr>)"

definition cur_execute ::
  "command \<Rightarrow> cursor \<Rightarrow> connection \<Rightarrow> world \<Rightarrow> error option \<times> connection" where
  "cur_execute cmd cur conn w =
     (if cur_closed cur then (Some (InterfaceError ''cursor already closed''), conn)
      else if closed conn then (Some (InterfaceError ''connection already closed''), conn)
      else
        (case tx conn of
           Aborted \<Rightarrow>
             (Some (InFailedSqlTransaction
                ''current transaction is aborted, commands ignored until end of transaction block''),
              conn)
         | Idle \<Rightarrow>
             (case pg_execute cmd (database w) of
                Inl e \<Rightarrow> (Some e, conn\<lparr>tx := Aborted\<rparr>)
              | Inr cat \<Rightarrow> (None, conn\<lparr>tx := InTransaction cat\<rparr>))
         | InTransaction cat0 \<Rightarrow>
             (case pg_execute cmd cat0 of
                Inl e \<Rightarrow> (Some e, conn\<lparr>tx := Aborted\<rparr>)
              | Inr cat \<Rightarrow> (None, conn\<lparr>tx := InTransaction cat\<rparr>))))"

definition cur_close :: "cursor \<Rightarrow> cursor" where
  "cur_close cur = cur\<lparr>cur_closed := True\<rparr>"

definition conn_commit :: "connection \<Rightarrow> world \<Rightarrow> error + connection \<times> world" where
  "conn_commit conn w =
     (if closed conn then Inl (InterfaceError ''connection already closed'')
      else
        (case tx conn of
           Idle \<Rightarrow> Inr (conn, w)
         | InTransaction cat \<Rightarrow> Inr (conn\<lparr>tx := Idle\<rparr>, w\<lparr>database := cat\<rparr>)
         | Aborted \<Rightarrow> Inr (conn\<lparr>tx := Idle\<rparr>, w)))"

definition conn_close :: "connection \<Rightarrow> connection" where
  "conn_close conn = conn\<lparr>closed := True, tx := Idle\<rparr>"

section \<open>\<^verbatim>\<open>get_db_connection\<close> and \<^verbatim>\<open>setup_database\<close>\<close>

text \<open>
  \<^verbatim>\<open>get_db_connection\<close> catches every exception of \<^verbatim>\<open>psycopg2.connect\<close>, prints it
  and returns \<open>None\<close>.
\<close>

definition get_db_connection :: "environ \<Rightarrow> world \<Rightarrow> connection option \<times> world" where
  "get_db_connection env w =
     (case psycopg2_connect (DATABASE_URL env) w of
        Inr conn \<Rightarrow> (Some conn, w)
      | Inl e \<Rightarrow> (None, print (''Database connection error: '' @ str_error e) w))"

text \<open>
  The loop \<^verbatim>\<open>for command in commands: cur.execute(command)\<close>: the first statement
  that raises ends it.
\<close>

fun execute_commands ::
  "command list \<Rightarrow> cursor \<Rightarrow> connection \<Rightarrow> world \<Rightarrow> error option \<times> connection" where
  "execute_commands [] cur conn w = (None, conn)"
| "execute_commands (c # cs) cur conn w =
     (case cur_execute c cur conn w of
        (Some e, conn') \<Rightarrow> (Some e, conn')
      | (None, conn') \<Rightarrow> execute_commands cs cur conn' w)"

text \<open>
  The local variables \<^verbatim>\<open>conn\<close> and \<^verbatim>\<open>cur\<close> of \<^verbatim>\<open>setup_database\<close> when it returns,
  kept so that their final state can be stated.
\<close>

record frame =
  conn :: "connection option"
  cur :: "cursor option"

text \<open>
  The \<^verbatim>\<open>finally\<close> block: \<^verbatim>\<open>cur.close(); conn.commit(); conn.close()\<close>. The
  \<^verbatim>\<open>except\<close> clause does not cover it, so an exception of \<^verbatim>\<open>conn.commit()\<close> would
  leave the function.
\<close>

definition finally_block :: "cursor \<Rightarrow> connection \<Rightarrow> world \<Rightarrow> (error + frame) \<times> world" where
  "finally_block cur0 conn1 w =
     (let cur1 = cur_close cur0 in
      case conn_commit conn1 w of
        Inl e \<Rightarrow> (Inl e, w)
      | Inr (conn2, w2) \<Rightarrow> (Inr \<lparr>conn = Some (conn_close conn2), cur = Some cur1\<rparr>, w2))"

text \<open>
  \<^verbatim>\<open>setup_database\<close>: \<open>Inl\<close> is an exception that leaves the function, \<open>Inr\<close> its
  return. \<^verbatim>\<open>conn.cursor()\<close> is before the \<^verbatim>\<open>try\<close>; the \<^verbatim>\<open>except\<close> clause catches
  every exception of the loop.
\<close>

definition setup_database :: "environ \<Rightarrow> world \<Rightarrow> (error + frame) \<times> world" where
  "setup_database env w =
     (case get_db_connection env w of
        (None, w1) \<Rightarrow>
          (Inr \<lparr>conn = None, cur = None\<rparr>,
           print ''Could not connect to the database. Aborting setup.'' w1)
      | (Some conn0, w1) \<Rightarrow>
          (case conn_cursor conn0 of
             Inl e \<Rightarrow> (Inl e, w1)
           | Inr cur0 \<Rightarrow>
               (case execute_commands commands cur0 conn0 w1 of
                  (None, conn1) \<Rightarrow>
                    finally_block cur0 conn1 (print ''Tables created or already exist.'' w1)
                | (Some e, conn1) \<Rightarrow>
                    finally_block cur0 conn1
                      (print (''Error during table creation: '' @ str_error e) w1))))"

section \<open>Requests, responses and the values a view returns\<close>

datatype http_method = GET | POST | PUT | DELETE | HEAD | OPTIONS | PATCH

text \<open>
  An incoming request, as the views can read it through Flask's \<^verbatim>\<open>request\<close>: method,
  path, query parameters, headers and body.
\<close>

record request =
  "method" :: http_method
  path :: string
  args :: "(string \<times> string) list"
  headers :: "(string \<times> string) list"
  data :: string

datatype json = JString string | JObject "(string \<times> json) list"

definition jsonify :: "(string \<times> json) list \<Rightarrow> json" where
  "jsonify d = JObject d"

text \<open>
  What a view function returns: a body alone (\<^verbatim>\<open>return jsonify(...)\<close>), a body with a
  status (\<^verbatim>\<open>return jsonify(...), 501\<close>), or \<open>None\<close> when its last statement is
  passed without a \<^verbatim>\<open>return\<close>.
\<close>

datatype view_rv = RvNone | Rv json | RvStatus json nat

datatype payload = Json json | ErrorPage

record response =
  status_code :: nat
  body :: payload

text \<open>
  Flask turns the returned value into the response: a body alone gets status 200, and
  \<open>None\<close> is a \<^verbatim>\<open>TypeError\<close>.
\<close>

fun make_response :: "view_rv \<Rightarrow> error + response" where
  "make_response RvNone =
     Inl (TypeError ''The view function did not return a valid response.'')"
| "make_response (Rv j) = Inr \<lparr>status_code = 200, body = Json j\<rparr>"
| "make_response (RvStatus j s) = Inr \<lparr>status_code = s, body = Json j\<rparr>"

text \<open>Python's \<^verbatim>\<open>str\<close> of an integer, for the f-strings of the parameterised view.\<close>

fun str_nat :: "nat \<Rightarrow> string" where
  "str_nat n =
     (if n < 10 then [''0123456789'' ! n]
      else str_nat (n div 10) @ [''0123456789'' ! (n mod 10)])"

declare str_nat.simps [simp del]

definition str_int :: "int \<Rightarrow> string" where
  "str_int i = (if i < 0 then CHR ''-'' # str_nat (nat (- i)) else str_nat (nat i))"

section \<open>The view functions\<close>

text \<open>
  Each view takes the request and the world and returns its value and the world. The
  names, the messages and the order of the tests on \<^verbatim>\<open>request.method\<close> are the
  source's.
\<close>

definition index :: "request \<Rightarrow> world \<Rightarrow> view_rv \<times> world" where
  "index req w =
     (Rv (jsonify [(''message'', JString ''Welcome to the Python MCQ Exam API!'')]), w)"

definition signup :: "request \<Rightarrow> world \<Rightarrow> view_rv \<times> world" where
  "signup req w =
     (RvStatus (jsonify [(''message'', JString ''Signup endpoint not implemented yet.'')]) 501, w)"

definition login :: "request \<Rightarrow> world \<Rightarrow> view_rv \<times> world" where
  "login req w =
     (RvStatus (jsonify [(''message'', JString ''Login endpoint not implemented yet.'')]) 501, w)"

definition get_live_exam :: "request \<Rightarrow> world \<Rightarrow> view_rv \<times> world" where
  "get_live_exam req w =
     (RvStatus (jsonify
        [(''message'', JString ''Get live exam endpoint not implemented yet.'')]) 501, w)"

definition submit_exam :: "request \<Rightarrow> world \<Rightarrow> view_rv \<times> world" where
  "submit_exam req w =
     (RvStatus (jsonify
        [(''message'', JString ''Submit exam endpoint not implemented yet.'')]) 501, w)"

definition manage_question_sets :: "request \<Rightarrow> world \<Rightarrow> view_rv \<times> world" where
  "manage_question_sets req w =
     (if method req = POST then
        (RvStatus (jsonify
           [(''message'', JString ''Create question set not implemented.'')]) 501, w)
      else if method req = GET then
        (RvStatus (jsonify
           [(''message'', JString ''Get all question sets not implemented.'')]) 501, w)
      else (RvNone, w))"

definition manage_single_question_set :: "int \<Rightarrow> request \<Rightarrow> world \<Rightarrow> view_rv \<times> world" where
  "manage_single_question_set set_id req w =
     (if method req = DELETE then
        (RvStatus (jsonify
           [(''message'',
             JString (''Delete set '' @ str_int set_id @ '' not implemented.''))]) 501, w)
      else if method req = PUT then
        (RvStatus (jsonify
           [(''message'',
             JString (''Update set '' @ str_int set_id @ '' not implemented.''))]) 501, w)
      else (RvNone, w))"

definition add_question :: "request \<Rightarrow> world \<Rightarrow> view_rv \<times> world" where
  "add_question req w =
     (RvStatus (jsonify
        [(''message'', JString ''Add question endpoint not implemented.'')]) 501, w)"

definition get_all_results :: "request \<Rightarrow> world \<Rightarrow> view_rv \<times> world" where
  "get_all_results req w =
     (RvStatus (jsonify
        [(''message'', JString ''Get all results endpoint not implemented.'')]) 501, w)"

definition get_leaderboard :: "request \<Rightarrow> world \<Rightarrow> view_rv \<times> world" where
  "get_leaderboard req w =
     (RvStatus (jsonify
        [(''message'', JString ''Leaderboard endpoint not implemented.'')]) 501, w)"

definition get_my_results :: "request \<Rightarrow> world \<Rightarrow> view_rv \<times> world" where
  "get_my_results req w =
     (RvStatus (jsonify
        [(''message'', JString ''My results endpoint not implemented.'')]) 501, w)"

section \<open>The routes\<close>

text \<open>
  One entry per \<^verbatim>\<open>@app.route\<close> decorator, in the order of the source: the rule, the
  methods the decorator declares (\<^verbatim>\<open>GET\<close> where it declares none) and the endpoint,
  which is the name of the decorated function. The table holds what the program
  declares; methods that the framework answers on its own account for every rule
  (\<^verbatim>\<open>OPTIONS\<close>, and \<^verbatim>\<open>HEAD\<close> beside \<^verbatim>\<open>GET\<close>) are not declarations of the program and
  are not in it.
\<close>

definition url_map :: "(string \<times> http_method list \<times> string) list" where
  "url_map =
    [(''/'', [GET], ''index''),
     (''/api/signup'', [POST], ''signup''),
     (''/api/login'', [POST], ''login''),
     (''/api/exams/live'', [GET], ''get_live_exam''),
     (''/api/exams/submit'', [POST], ''submit_exam''),
     (''/api/admin/question-sets'', [POST, GET], ''manage_question_sets''),
     (''/api/admin/question-sets/<int:set_id>'', [DELETE, PUT], ''manage_single_question_set''),
     (''/api/admin/questions'', [POST], ''add_question''),
     (''/api/admin/results'', [GET], ''get_all_results''),
     (''/api/leaderboard'', [GET], ''get_leaderboard''),
     (''/api/my-results'', [GET], ''get_my_results'')]"

text \<open>
  Matching a path against a rule, segment by segment. A segment \<^verbatim>\<open><int:name>\<close> of a
  rule takes a non-empty run of decimal digits and binds its value to the name; every
  other segment of a rule takes itself only.
\<close>

fun split_slash :: "string \<Rightarrow> string list" where
  "split_slash [] = [[]]"
| "split_slash (c # cs) =
     (if c = CHR ''/'' then [] # split_slash cs
      else (case split_slash cs of
              [] \<Rightarrow> [[c]]
            | s # ss \<Rightarrow> (c # s) # ss))"

definition is_digit :: "char \<Rightarrow> bool" where
  "is_digit c = (c \<in> set ''0123456789'')"

definition digit_value :: "char \<Rightarrow> nat" where
  "digit_value c = of_char c - 48"

definition int_converter :: "string \<Rightarrow> int option" where
  "int_converter s =
     (if s \<noteq> [] \<and> list_all is_digit s
      then Some (int (foldl (\<lambda>n c. 10 * n + digit_value c) 0 s))
      else None)"

definition is_int_variable :: "string \<Rightarrow> bool" where
  "is_int_variable seg = (6 < length seg \<and> take 5 seg = ''<int:'' \<and> last seg = CHR ''>'')"

definition variable_name :: "string \<Rightarrow> string" where
  "variable_name seg = butlast (drop 5 seg)"

type_synonym view_args = "(string \<times> int) list"

fun match_segments :: "string list \<Rightarrow> string list \<Rightarrow> view_args option" where
  "match_segments [] [] = Some []"
| "match_segments (r # rs) (p # ps) =
     (if is_int_variable r then
        (case int_converter p of
           None \<Rightarrow> None
         | Some v \<Rightarrow> map_option ((#) (variable_name r, v)) (match_segments rs ps))
      else if r = p then match_segments rs ps
      else None)"
| "match_segments _ _ = None"

definition match_rule :: "string \<Rightarrow> string \<Rightarrow> view_args option" where
  "match_rule rule p = match_segments (split_slash rule) (split_slash p)"

datatype routing_error = NotFound | MethodNotAllowed

text \<open>
  The rules are tried in order. A rule that takes the path but not the method is
  remembered: when no rule takes both, the answer is 405 rather than 404.
\<close>

fun match_rules ::
  "(string \<times> http_method list \<times> string) list \<Rightarrow> http_method \<Rightarrow> string \<Rightarrow> bool
     \<Rightarrow> routing_error + string \<times> view_args" where
  "match_rules [] m p seen = Inl (if seen then MethodNotAllowed else NotFound)"
| "match_rules ((rule, ms, ep) # rs) m p seen =
     (case match_rule rule p of
        None \<Rightarrow> match_rules rs m p seen
      | Some kw \<Rightarrow>
          if m \<in> set ms then Inr (ep, kw) else match_rules rs m p True)"

definition url_match :: "http_method \<Rightarrow> string \<Rightarrow> routing_error + string \<times> view_args" where
  "url_match m p = match_rules url_map m p False"

text \<open>
  Calling a view with the arguments of the rule, as Python binds keyword arguments: a
  view without parameters takes none, \<^verbatim>\<open>manage_single_question_set\<close> takes exactly
  \<^verbatim>\<open>set_id\<close>; anything else is a \<^verbatim>\<open>TypeError\<close>.
\<close>

type_synonym view = "view_args \<Rightarrow> request \<Rightarrow> world \<Rightarrow> (error + view_rv) \<times> world"

definition call0 :: "(request \<Rightarrow> world \<Rightarrow> view_rv \<times> world) \<Rightarrow> view" where
  "call0 f kw req w =
     (if kw = [] then (case f req w of (rv, w') \<Rightarrow> (Inr rv, w'))
      else (Inl (TypeError ''got an unexpected keyword argument''), w))"

definition call_set_id :: "(int \<Rightarrow> request \<Rightarrow> world \<Rightarrow> view_rv \<times> world) \<Rightarrow> view" where
  "call_set_id f kw req w =
     (case kw of
        [(k, v)] \<Rightarrow>
          if k = ''set_id'' then (case f v req w of (rv, w') \<Rightarrow> (Inr rv, w'))
          else (Inl (TypeError ''got an unexpected keyword argument''), w)
      | _ \<Rightarrow> (Inl (TypeError ''missing or unexpected keyword arguments''), w))"

definition view_functions :: "string \<Rightarrow> view option" where
  "view_functions =
     map_of
      [(''index'', call0 index),
       (''signup'', call0 signup),
       (''login'', call0 login),
       (''get_live_exam'', call0 get_live_exam),
       (''submit_exam'', call0 submit_exam),
       (''manage_question_sets'', call0 manage_question_sets),
       (''manage_single_question_set'', call_set_id manage_single_question_set),
       (''add_question'', call0 add_question),
       (''get_all_results'', call0 get_all_results),
       (''get_leaderboard'', call0 get_leaderboard),
       (''get_my_results'', call0 get_my_results)]"

text \<open>
  One request through the application: route, call the view, build the response. A
  routing error is answered 404 or 405, an exception 500, each with an error page.
\<close>

definition wsgi_app :: "request \<Rightarrow> world \<Rightarrow> response \<times> world" where
  "wsgi_app req w =
     (case url_match (method req) (path req) of
        Inl NotFound \<Rightarrow> (\<lparr>status_code = 404, body = ErrorPage\<rparr>, w)
      | Inl MethodNotAllowed \<Rightarrow> (\<lparr>status_code = 405, body = ErrorPage\<rparr>, w)
      | Inr (ep, kw) \<Rightarrow>
          (case view_functions ep of
             None \<Rightarrow> (\<lparr>status_code = 500, body = ErrorPage\<rparr>, w)
           | Some v \<Rightarrow>
               (case v kw req w of
                  (Inl e, w') \<Rightarrow> (\<lparr>status_code = 500, body = ErrorPage\<rparr>, w')
                | (Inr rv, w') \<Rightarrow>
                    (case make_response rv of
                       Inl e \<Rightarrow> (\<lparr>status_code = 500, body = ErrorPage\<rparr>, w')
                     | Inr r \<Rightarrow> (r, w')))))"

text \<open>
  The life of the process: the module is imported, which runs \<^verbatim>\<open>setup_database()\<close>
  once (an exception there ends the process), and then requests are served one after
  the other.
\<close>

fun serve :: "request list \<Rightarrow> world \<Rightarrow> response list \<times> world" where
  "serve [] w = ([], w)"
| "serve (req # reqs) w =
     (case wsgi_app req w of
        (r, w') \<Rightarrow> (case serve reqs w' of (rs, w'') \<Rightarrow> (r # rs, w'')))"

definition run_process ::
  "environ \<Rightarrow> request list \<Rightarrow> world \<Rightarrow> (error + response list) \<times> world" where
  "run_process env reqs w =
     (case setup_database env w of
        (Inl e, w') \<Rightarrow> (Inl e, w')
      | (Inr fr, w') \<Rightarrow> (case serve reqs w' of (rs, w'') \<Rightarrow> (Inr rs, w'')))"

section \<open>The schema the statements create, and the schema as documented\<close>

text \<open>
  The name of a statement's table, the catalog entries of the four statements, and
  whether a catalog holds a table for each of them.
\<close>

fun cmd_name :: "command \<Rightarrow> string" where
  "cmd_name (CREATE_TABLE_IF_NOT_EXISTS n cols) = n"

definition schema :: catalog where
  "schema = map (\<lambda>c. case c of CREATE_TABLE_IF_NOT_EXISTS n cols \<Rightarrow> (n, cols)) commands"

definition tables_exist :: "catalog \<Rightarrow> bool" where
  "tables_exist cat = list_all (\<lambda>c. map_of cat (cmd_name c) \<noteq> None) commands"

text \<open>
  The data model of the specification: for each table the names of its columns, in the
  order of the specification's table of entities (its \<open>password hash\<close>, \<open>is_active flag\<close>
  and \<open>exam duration minutes\<close> are the columns \<^verbatim>\<open>password_hash\<close>, \<^verbatim>\<open>is_active\<close> and
  \<^verbatim>\<open>exam_time_minutes\<close>).
\<close>

definition documented_schema :: "(string \<times> string list) list" where
  "documented_schema =
     [(''users'', [''id'', ''name'', ''phone'', ''password_hash'', ''school'', ''points'',
         ''level'', ''created_at'']),
      (''question_sets'', [''id'', ''name'', ''category'', ''is_active'', ''exam_time_minutes'',
         ''created_at'']),
      (''questions'', [''id'', ''set_id'', ''question_text'', ''options'', ''correct_option'']),
      (''results'', [''id'', ''user_id'', ''set_id'', ''score'', ''total_marks'',
         ''submitted_at''])]"

text \<open>
  The cursor and the connection as \<^verbatim>\<open>setup_database\<close> gets them, and its local
  variables when it returns after the \<^verbatim>\<open>finally\<close> block.
\<close>

definition open_cursor :: cursor where
  "open_cursor = \<lparr>cur_closed = False\<rparr>"

definition open_connection :: connection where
  "open_connection = \<lparr>closed = False, tx = Idle\<rparr>"

definition closed_frame :: frame where
  "closed_frame =
     \<lparr>conn = Some \<lparr>closed = True, tx = Idle\<rparr>, cur = Some \<lparr>cur_closed = True\<rparr>\<rparr>"

section \<open>The interface as the specification lists it\<close>






section \<open>Auxiliary definitions\<close>

text \<open>The inverse of \<open>split_slash\<close>, and the rules of \<open>url_map\<close> without a variable.\<close>

fun join_slash :: "string list \<Rightarrow> string" where
  "join_slash [] = []"
| "join_slash [s] = s"
| "join_slash (s # t # ss) = s @ CHR ''/'' # join_slash (t # ss)"


section \<open>Routing: what \<open>url_match\<close> computes\<close>

lemma split_slash_not_Nil: "split_slash p \<noteq> []"
  by (induction p) (auto split: list.splits)

lemma join_split_slash: "join_slash (split_slash p) = p"
proof (induction p)
  case Nil
  show ?case by simp
next
  case (Cons c cs)
  obtain s ss where sp: "split_slash cs = s # ss"
    using split_slash_not_Nil [of cs] by (cases "split_slash cs") auto
  show ?case
  proof (cases "c = CHR ''/''")
    case True
    with Cons sp show ?thesis by simp
  next
    case False
    with Cons sp show ?thesis by (cases ss) auto
  qed
qed

lemma split_slash_inj: "split_slash p = split_slash q \<Longrightarrow> p = q"
  by (metis join_split_slash)

lemma split_slash_no_slash: "CHR ''/'' \<notin> set s \<Longrightarrow> split_slash s = [s]"
  by (induction s) auto

lemma match_segments_literal:
  "list_all (\<lambda>r. \<not> is_int_variable r) rs \<Longrightarrow>
   match_segments rs ps = (if ps = rs then Some [] else None)"
proof (induction rs arbitrary: ps)
  case Nil
  show ?case by (cases ps) auto
next
  case (Cons r rs)
  then show ?case by (cases ps) auto
qed

lemma match_rule_literal:
  "list_all (\<lambda>r. \<not> is_int_variable r) (split_slash rule) \<Longrightarrow>
   match_rule rule p = (if p = rule then Some [] else None)"
  unfolding match_rule_def
  by (auto simp: match_segments_literal dest: split_slash_inj)

lemma is_digit_not_slash: "list_all is_digit s \<Longrightarrow> CHR ''/'' \<notin> set s"
  by (induction s) (auto simp: is_digit_def)

lemma int_converter_no_slash: "int_converter s = Some v \<Longrightarrow> CHR ''/'' \<notin> set s"
  by (auto simp: int_converter_def is_digit_not_slash split: if_splits)

lemma match_segments_length:
  "match_segments rs ps = Some kw \<Longrightarrow> length ps = length rs"
  by (induction rs ps arbitrary: kw rule: match_segments.induct)
    (auto split: if_splits option.splits)

lemma split_slash_set_id_rule:
  "split_slash ''/api/admin/question-sets/<int:set_id>'' =
     [[], ''api'', ''admin'', ''question-sets'', ''<int:set_id>'']"
  by simp

lemma match_rule_set_id:
  "match_rule ''/api/admin/question-sets/<int:set_id>'' p = Some kw \<longleftrightarrow>
   (\<exists>ds v. p = ''/api/admin/question-sets/'' @ ds \<and> int_converter ds = Some v \<and>
      kw = [(''set_id'', v)])"
  (is "?L = ?R")
proof
  assume l: ?L
  then have m: "match_segments [[], ''api'', ''admin'', ''question-sets'', ''<int:set_id>'']
      (split_slash p) = Some kw"
    unfolding match_rule_def split_slash_set_id_rule .
  from match_segments_length [OF m] obtain a b c d e where sp: "split_slash p = [a, b, c, d, e]"
    by (auto simp: length_Suc_conv numeral_eq_Suc)
  from m sp obtain v where
    segs: "a = []" "b = ''api''" "c = ''admin''" "d = ''question-sets''"
    and conv: "int_converter e = Some v" and kw: "kw = [(''set_id'', v)]"
    by (auto simp: is_int_variable_def variable_name_def split: if_splits option.splits)
  have "p = join_slash [a, b, c, d, e]"
    using join_split_slash [of p] sp by simp
  with segs have "p = ''/api/admin/question-sets/'' @ e" by simp
  with conv kw show ?R by blast
next
  assume ?R
  then obtain ds v where p: "p = ''/api/admin/question-sets/'' @ ds"
    and conv: "int_converter ds = Some v" and kw: "kw = [(''set_id'', v)]"
    by blast
  have "split_slash ds = [ds]"
    using conv by (simp add: split_slash_no_slash int_converter_no_slash)
  then have "split_slash p = [[], ''api'', ''admin'', ''question-sets'', ds]"
    by (simp add: p)
  then show ?L
    unfolding match_rule_def split_slash_set_id_rule
    by (simp add: conv kw is_int_variable_def variable_name_def)
qed



lemma url_match_literal:
  "url_match m ''/'' = (if m = GET then Inr (''index'', []) else Inl MethodNotAllowed)"
  "url_match m ''/api/signup'' =
     (if m = POST then Inr (''signup'', []) else Inl MethodNotAllowed)"
  "url_match m ''/api/login'' =
     (if m = POST then Inr (''login'', []) else Inl MethodNotAllowed)"
  "url_match m ''/api/exams/live'' =
     (if m = GET then Inr (''get_live_exam'', []) else Inl MethodNotAllowed)"
  "url_match m ''/api/exams/submit'' =
     (if m = POST then Inr (''submit_exam'', []) else Inl MethodNotAllowed)"
  "url_match m ''/api/admin/question-sets'' =
     (if m = POST \<or> m = GET then Inr (''manage_question_sets'', []) else Inl MethodNotAllowed)"
  "url_match m ''/api/admin/questions'' =
     (if m = POST then Inr (''add_question'', []) else Inl MethodNotAllowed)"
  "url_match m ''/api/admin/results'' =
     (if m = GET then Inr (''get_all_results'', []) else Inl MethodNotAllowed)"
  "url_match m ''/api/leaderboard'' =
     (if m = GET then Inr (''get_leaderboard'', []) else Inl MethodNotAllowed)"
  "url_match m ''/api/my-results'' =
     (if m = GET then Inr (''get_my_results'', []) else Inl MethodNotAllowed)"
  by (simp_all add: url_match_def url_map_def match_rule_def is_int_variable_def)

lemma url_match_set_id:
  assumes "int_converter ds = Some v"
  shows "url_match m (''/api/admin/question-sets/'' @ ds) =
     (if m = DELETE \<or> m = PUT then Inr (''manage_single_question_set'', [(''set_id'', v)])
      else Inl MethodNotAllowed)"
proof -
  have "match_rule ''/api/admin/question-sets/<int:set_id>'' (''/api/admin/question-sets/'' @ ds)
      = Some [(''set_id'', v)]"
    using assms by (simp only: match_rule_set_id) blast
  then show ?thesis
    unfolding url_match_def url_map_def
    by (simp add: match_rule_literal is_int_variable_def)
qed



lemmas view_defs =
  index_def signup_def login_def get_live_exam_def submit_exam_def manage_question_sets_def
  manage_single_question_set_def add_question_def get_all_results_def get_leaderboard_def
  get_my_results_def

lemma view_functions_cases:
  assumes "view_functions ep = Some v"
  obtains f where "v = call0 f"
    "f \<in> {index, signup, login, get_live_exam, submit_exam, manage_question_sets,
           add_question, get_all_results, get_leaderboard, get_my_results}"
  | "v = call_set_id manage_single_question_set"
  using assms unfolding view_functions_def
  by (auto split: if_splits)

lemma view_world_unchanged:
  assumes "view_functions ep = Some v"
  shows "snd (v kw req w) = w"
  using assms
proof (cases rule: view_functions_cases)
  case (1 f)
  then show ?thesis
    by (auto simp: call0_def view_defs)
next
  case 2
  then show ?thesis
    by (auto simp: call_set_id_def view_defs split: list.splits)
qed

lemma view_depends_on_method_only:
  assumes "view_functions ep = Some v" and "method r1 = method r2"
  shows "fst (v kw r1 w1) = fst (v kw r2 w2)"
  using assms(1)
proof (cases rule: view_functions_cases)
  case (1 f)
  with assms(2) show ?thesis
    by (auto simp: call0_def view_defs)
next
  case 2
  with assms(2) show ?thesis
    by (auto simp: call_set_id_def view_defs split: list.splits)
qed

lemma wsgi_app_world: "snd (wsgi_app req w) = w"
proof (cases "url_match (method req) (path req)")
  case (Inl e)
  then show ?thesis
    by (cases e) (simp_all add: wsgi_app_def)
next
  case (Inr r)
  obtain ep kw where r: "r = (ep, kw)" by (cases r)
  show ?thesis
  proof (cases "view_functions ep")
    case None
    with Inr r show ?thesis by (simp add: wsgi_app_def)
  next
    case (Some v)
    from view_world_unchanged [OF Some, of kw req w]
    show ?thesis
      using Inr r Some
      by (auto simp: wsgi_app_def split: prod.splits sum.splits)
  qed
qed

lemma wsgi_app_response:
  assumes "method r1 = method r2"
    and "url_match (method r1) (path r1) = url_match (method r2) (path r2)"
  shows "fst (wsgi_app r1 w1) = fst (wsgi_app r2 w2)"
proof (cases "url_match (method r1) (path r1)")
  case (Inl e)
  then have "url_match (method r2) (path r2) = Inl e"
    using assms(2) by simp
  with Inl show ?thesis
    by (cases e) (simp_all add: wsgi_app_def)
next
  case (Inr r)
  obtain ep kw where r: "r = (ep, kw)" by (cases r)
  have u1: "url_match (method r1) (path r1) = Inr (ep, kw)"
    using Inr r by simp
  have u2: "url_match (method r2) (path r2) = Inr (ep, kw)"
    using Inr r assms(2) by simp
  show ?thesis
  proof (cases "view_functions ep")
    case None
    then show ?thesis by (simp add: wsgi_app_def u1 u2)
  next
    case (Some v)
    have "fst (v kw r1 w1) = fst (v kw r2 w2)"
      by (rule view_depends_on_method_only [OF Some assms(1)])
    then show ?thesis
      by (auto simp: wsgi_app_def u1 u2 Some split: prod.splits sum.splits)
  qed
qed



lemma view_functions_eval:
  "view_functions ''index'' = Some (call0 index)"
  "view_functions ''signup'' = Some (call0 signup)"
  "view_functions ''login'' = Some (call0 login)"
  "view_functions ''get_live_exam'' = Some (call0 get_live_exam)"
  "view_functions ''submit_exam'' = Some (call0 submit_exam)"
  "view_functions ''manage_question_sets'' = Some (call0 manage_question_sets)"
  "view_functions ''manage_single_question_set'' = Some (call_set_id manage_single_question_set)"
  "view_functions ''add_question'' = Some (call0 add_question)"
  "view_functions ''get_all_results'' = Some (call0 get_all_results)"
  "view_functions ''get_leaderboard'' = Some (call0 get_leaderboard)"
  "view_functions ''get_my_results'' = Some (call0 get_my_results)"
  by (simp_all add: view_functions_def)

lemma serve_world: "snd (serve reqs w) = w"
proof (induction reqs arbitrary: w)
  case Nil
  show ?case by simp
next
  case (Cons req reqs)
  have "snd (wsgi_app req w) = w" by (rule wsgi_app_world)
  moreover have "snd (serve reqs w) = w" by (rule Cons.IH)
  ultimately show ?case
    by (auto split: prod.splits)
qed












lemma int_converter_7: "int_converter ''7'' = Some 7" "int_converter ''007'' = Some 7"
  by (simp_all add: int_converter_def is_digit_def digit_value_def)

section \<open>The database: what \<open>setup_database\<close> computes\<close>

lemma map_of_append_None:
  "map_of xs k = None \<Longrightarrow> map_of (xs @ ys) k = map_of ys k"
  by (induction xs) auto

lemma map_of_append_Some:
  "map_of xs k = Some v \<Longrightarrow> map_of (xs @ ys) k = Some v"
  by (induction xs) auto

lemma execute_commands_fresh:
  assumes "map_of cat ''users'' = None" "map_of cat ''question_sets'' = None"
    "map_of cat ''questions'' = None" "map_of cat ''results'' = None"
    and "database w = cat"
  shows "execute_commands commands \<lparr>cur_closed = False\<rparr> \<lparr>closed = False, tx = Idle\<rparr> w =
    (None, \<lparr>closed = False, tx = InTransaction (cat @ schema)\<rparr>)"
  using assms
  unfolding commands_def schema_def
  by (simp add: cur_execute_def map_of_append_None primary_keys_def is_key_def
      del: map_of_append)

lemma pg_execute_keeps:
  "pg_execute cmd cat = Inr cat' \<Longrightarrow> map_of cat n = Some t \<Longrightarrow> map_of cat' n = Some t"
  by (cases cmd) (auto simp: map_of_append_Some simp del: map_of_append split: if_splits option.splits)

lemma pg_execute_creates:
  "pg_execute cmd cat = Inr cat' \<Longrightarrow> map_of cat' (cmd_name cmd) \<noteq> None"
  by (cases cmd) (auto simp: map_of_append_None simp del: map_of_append split: if_splits option.splits)

lemma pg_execute_exists:
  "map_of cat (cmd_name cmd) \<noteq> None \<Longrightarrow> pg_execute cmd cat = Inr cat"
  by (cases cmd) auto

lemma cur_execute_Idle:
  "\<not> cur_closed cu \<Longrightarrow> \<not> closed co \<Longrightarrow>
   cur_execute cmd cu (co\<lparr>tx := Idle\<rparr>) w =
   cur_execute cmd cu (co\<lparr>tx := InTransaction (database w)\<rparr>) w"
  by (simp add: cur_execute_def split: sum.splits)

lemma execute_commands_Idle:
  "cs \<noteq> [] \<Longrightarrow> \<not> cur_closed cu \<Longrightarrow> \<not> closed co \<Longrightarrow>
   execute_commands cs cu (co\<lparr>tx := Idle\<rparr>) w =
   execute_commands cs cu (co\<lparr>tx := InTransaction (database w)\<rparr>) w"
  by (cases cs) (simp_all add: cur_execute_Idle)

lemma cur_execute_None:
  assumes "cur_execute c cu co w = (None, co1)"
  shows "\<exists>cat. co1 = co\<lparr>tx := InTransaction cat\<rparr>"
  using assms
  by (auto simp: cur_execute_def split: tx_status.splits sum.splits if_splits)

lemma cur_execute_Some:
  assumes "\<not> cur_closed cu" and "\<not> closed co" and "cur_execute c cu co w = (Some e, co1)"
  shows "co1 = co\<lparr>tx := Aborted\<rparr>"
  using assms
  by (auto simp: cur_execute_def split: tx_status.splits sum.splits if_splits)

lemma execute_commands_failure:
  assumes "\<not> cur_closed cu" and "\<not> closed co"
    and "execute_commands cs cu co w = (Some e, co')"
  shows "co' = co\<lparr>tx := Aborted\<rparr>"
  using assms
proof (induction cs arbitrary: co)
  case Nil
  then show ?case by simp
next
  case (Cons c cs)
  obtain r co1 where step: "cur_execute c cu co w = (r, co1)"
    by (cases "cur_execute c cu co w")
  show ?case
  proof (cases r)
    case None
    with step obtain cat where c1: "co1 = co\<lparr>tx := InTransaction cat\<rparr>"
      using cur_execute_None by blast
    then have nc: "\<not> closed co1"
      using Cons.prems(2) by simp
    from Cons.prems(3) step None have "execute_commands cs cu co1 w = (Some e, co')"
      by simp
    from Cons.IH [OF Cons.prems(1) nc this] have "co' = co1\<lparr>tx := Aborted\<rparr>" .
    with c1 show ?thesis by simp
  next
    case (Some e')
    with step Cons.prems(3) have "co' = co1"
      by simp
    moreover have "co1 = co\<lparr>tx := Aborted\<rparr>"
      using cur_execute_Some [OF Cons.prems(1,2)] step Some by blast
    ultimately show ?thesis by simp
  qed
qed

lemma execute_commands_success:
  assumes "\<not> cur_closed cu" and "\<not> closed co" and "tx co = InTransaction cat"
    and "execute_commands cs cu co w = (None, co')"
  shows "\<exists>cat'. co' = co\<lparr>tx := InTransaction cat'\<rparr> \<and>
           (\<forall>n t. map_of cat n = Some t \<longrightarrow> map_of cat' n = Some t) \<and>
           list_all (\<lambda>c. map_of cat' (cmd_name c) \<noteq> None) cs"
  using assms
proof (induction cs arbitrary: co cat)
  case Nil
  then show ?case by (auto intro: exI [of _ cat])
next
  case (Cons c cs)
  from Cons.prems obtain cat1 where ex: "pg_execute c cat = Inr cat1"
    and rest: "execute_commands cs cu (co\<lparr>tx := InTransaction cat1\<rparr>) w = (None, co')"
    by (auto simp: cur_execute_def split: sum.splits)
  have "\<not> closed (co\<lparr>tx := InTransaction cat1\<rparr>)" and "tx (co\<lparr>tx := InTransaction cat1\<rparr>) = InTransaction cat1"
    using Cons.prems(2) by simp_all
  from Cons.IH [OF Cons.prems(1) this rest] obtain cat'
    where c': "co' = co\<lparr>tx := InTransaction cat'\<rparr>"
      and keep: "\<forall>n t. map_of cat1 n = Some t \<longrightarrow> map_of cat' n = Some t"
      and all: "list_all (\<lambda>c. map_of cat' (cmd_name c) \<noteq> None) cs"
    by auto
  have "map_of cat' (cmd_name c) \<noteq> None"
    using pg_execute_creates [OF ex] keep by auto
  moreover have "\<forall>n t. map_of cat n = Some t \<longrightarrow> map_of cat' n = Some t"
    using pg_execute_keeps [OF ex] keep by blast
  ultimately show ?case
    using c' all by auto
qed

lemma execute_commands_exist:
  assumes "\<not> cur_closed cu" and "\<not> closed co" and "tx co = InTransaction cat"
    and "list_all (\<lambda>c. map_of cat (cmd_name c) \<noteq> None) cs"
  shows "execute_commands cs cu co w = (None, co)"
  using assms
proof (induction cs)
  case Nil
  show ?case by simp
next
  case (Cons c cs)
  then have "pg_execute c cat = Inr cat"
    by (simp add: pg_execute_exists)
  with Cons.prems have "cur_execute c cu co w = (None, co)"
    by (simp add: cur_execute_def)
  with Cons show ?case by simp
qed

lemma setup_database_no_connection:
  assumes "psycopg2_connect (DATABASE_URL env) w = Inl e"
  shows "setup_database env w =
    (Inr \<lparr>conn = None, cur = None\<rparr>,
     w\<lparr>stdout := stdout w @ [''Database connection error: '' @ str_error e,
        ''Could not connect to the database. Aborting setup.'']\<rparr>)"
  using assms by (simp add: setup_database_def get_db_connection_def print_def)

lemma psycopg2_connect_Inr:
  "psycopg2_connect dsn w = Inr c \<longleftrightarrow> (reachable w \<and> dsn \<noteq> None \<and> c = open_connection)"
  by (auto simp: psycopg2_connect_def open_connection_def split: option.splits)

lemma setup_database_connected:
  assumes "reachable w" and "DATABASE_URL env = Some url"
  shows "setup_database env w =
    (case execute_commands commands open_cursor open_connection w of
       (None, c) \<Rightarrow> finally_block open_cursor c (print ''Tables created or already exist.'' w)
     | (Some e, c) \<Rightarrow>
         finally_block open_cursor c (print (''Error during table creation: '' @ str_error e) w))"
  using assms unfolding open_cursor_def open_connection_def
  by (simp add: setup_database_def get_db_connection_def psycopg2_connect_def conn_cursor_def)

lemma finally_block_Aborted:
  "finally_block open_cursor (open_connection\<lparr>tx := Aborted\<rparr>) w = (Inr closed_frame, w)"
  by (simp add: finally_block_def conn_commit_def conn_close_def cur_close_def open_cursor_def
      open_connection_def closed_frame_def)

lemma finally_block_InTransaction:
  "finally_block open_cursor (open_connection\<lparr>tx := InTransaction cat\<rparr>) w =
     (Inr closed_frame, w\<lparr>database := cat\<rparr>)"
  by (simp add: finally_block_def conn_commit_def conn_close_def cur_close_def open_cursor_def
      open_connection_def closed_frame_def)

lemma commands_not_Nil: "commands \<noteq> []"
  by (simp add: commands_def)

lemma setup_database_failure:
  assumes "reachable w" and "DATABASE_URL env = Some url"
    and "execute_commands commands open_cursor open_connection w = (Some e, c)"
  shows "setup_database env w =
    (Inr closed_frame, print (''Error during table creation: '' @ str_error e) w)"
proof -
  have "c = open_connection\<lparr>tx := Aborted\<rparr>"
    using execute_commands_failure [OF _ _ assms(3)]
    by (simp add: open_cursor_def open_connection_def)
  then show ?thesis
    by (simp add: setup_database_connected [OF assms(1,2)] assms(3) finally_block_Aborted)
qed

lemma execute_commands_open:
  "execute_commands commands open_cursor open_connection w =
   execute_commands commands open_cursor (open_connection\<lparr>tx := InTransaction (database w)\<rparr>) w"
  using execute_commands_Idle [OF commands_not_Nil, of open_cursor open_connection w]
  by (simp add: open_cursor_def open_connection_def)

lemma setup_database_success:
  assumes "reachable w" and "DATABASE_URL env = Some url"
    and "execute_commands commands open_cursor open_connection w = (None, c)"
  shows "\<exists>cat. c = open_connection\<lparr>tx := InTransaction cat\<rparr> \<and>
      setup_database env w =
      (Inr closed_frame, (print ''Tables created or already exist.'' w)\<lparr>database := cat\<rparr>) \<and>
      tables_exist cat \<and> (\<forall>n t. map_of (database w) n = Some t \<longrightarrow> map_of cat n = Some t)"
proof -
  have ex: "execute_commands commands open_cursor
      (open_connection\<lparr>tx := InTransaction (database w)\<rparr>) w = (None, c)"
    using assms(3) by (simp add: execute_commands_open)
  have "\<exists>cat'. c = open_connection\<lparr>tx := InTransaction (database w)\<rparr>\<lparr>tx := InTransaction cat'\<rparr> \<and>
      (\<forall>n t. map_of (database w) n = Some t \<longrightarrow> map_of cat' n = Some t) \<and>
      list_all (\<lambda>c. map_of cat' (cmd_name c) \<noteq> None) commands"
    by (rule execute_commands_success [OF _ _ _ ex])
      (simp_all add: open_cursor_def open_connection_def)
  then obtain cat where c: "c = open_connection\<lparr>tx := InTransaction cat\<rparr>"
    and keep: "\<forall>n t. map_of (database w) n = Some t \<longrightarrow> map_of cat n = Some t"
    and all: "tables_exist cat"
    by (auto simp: tables_exist_def)
  have "setup_database env w =
      (Inr closed_frame, (print ''Tables created or already exist.'' w)\<lparr>database := cat\<rparr>)"
    by (simp add: setup_database_connected [OF assms(1,2)] assms(3) c finally_block_InTransaction)
  with c keep all show ?thesis by blast
qed

lemma setup_database_tables_exist:
  assumes "reachable w" and "DATABASE_URL env = Some url" and "tables_exist (database w)"
  shows "setup_database env w =
    (Inr closed_frame, print ''Tables created or already exist.'' w)"
proof -
  have "execute_commands commands open_cursor
      (open_connection\<lparr>tx := InTransaction (database w)\<rparr>) w =
      (None, open_connection\<lparr>tx := InTransaction (database w)\<rparr>)"
    by (rule execute_commands_exist [where cat = "database w"])
      (use assms(3) in \<open>simp_all add: open_cursor_def open_connection_def tables_exist_def\<close>)
  then have "execute_commands commands open_cursor open_connection w =
      (None, open_connection\<lparr>tx := InTransaction (database w)\<rparr>)"
    by (simp add: execute_commands_open)
  then show ?thesis
    by (simp add: setup_database_connected [OF assms(1,2)] finally_block_InTransaction print_def)
qed

lemma cur_execute_database:
  "database w' = database w \<Longrightarrow> cur_execute c cu co w' = cur_execute c cu co w"
  unfolding cur_execute_def by (cases "tx co") simp_all

lemma execute_commands_database:
  "database w' = database w \<Longrightarrow> execute_commands cs cu co w' = execute_commands cs cu co w"
  by (induction cs arbitrary: co)
    (simp_all add: cur_execute_database [of w' w] split: prod.splits option.splits)

lemma DATABASE_URL_cases:
  obtains (connected) url where "reachable w" "DATABASE_URL env = Some url"
  | (refused) e where "psycopg2_connect (DATABASE_URL env) w = Inl e"
  by (cases "DATABASE_URL env"; cases "reachable w") (auto simp: psycopg2_connect_def)

lemma setup_database_returns: "\<exists>fr. fst (setup_database env w) = Inr fr"
proof (cases rule: DATABASE_URL_cases [of w env])
  case (connected url)
  obtain r c where ex: "execute_commands commands open_cursor open_connection w = (r, c)"
    by (cases "execute_commands commands open_cursor open_connection w")
  show ?thesis
  proof (cases r)
    case None
    then have "execute_commands commands open_cursor open_connection w = (None, c)"
      using ex by simp
    from setup_database_success [OF connected this] obtain cat where
      "setup_database env w =
        (Inr closed_frame, (print ''Tables created or already exist.'' w)\<lparr>database := cat\<rparr>)"
      by blast
    then show ?thesis by simp
  next
    case (Some e)
    then have "execute_commands commands open_cursor open_connection w = (Some e, c)"
      using ex by simp
    from setup_database_failure [OF connected this] show ?thesis by simp
  qed
next
  case (refused e)
  then show ?thesis by (simp add: setup_database_no_connection)
qed

lemma setup_database_reachable: "reachable (snd (setup_database env w)) = reachable w"
proof (cases rule: DATABASE_URL_cases [of w env])
  case (connected url)
  obtain r c where ex: "execute_commands commands open_cursor open_connection w = (r, c)"
    by (cases "execute_commands commands open_cursor open_connection w")
  show ?thesis
  proof (cases r)
    case None
    then have "execute_commands commands open_cursor open_connection w = (None, c)"
      using ex by simp
    from setup_database_success [OF connected this] obtain cat where
      "setup_database env w =
        (Inr closed_frame, (print ''Tables created or already exist.'' w)\<lparr>database := cat\<rparr>)"
      by blast
    then show ?thesis by (simp add: print_def)
  next
    case (Some e)
    then have "execute_commands commands open_cursor open_connection w = (Some e, c)"
      using ex by simp
    from setup_database_failure [OF connected this] show ?thesis by (simp add: print_def)
  qed
next
  case (refused e)
  then show ?thesis by (simp add: setup_database_no_connection)
qed

lemma setup_database_result:
  "database (snd (setup_database env w)) = database w \<or>
   tables_exist (database (snd (setup_database env w)))"
proof (cases rule: DATABASE_URL_cases [of w env])
  case (connected url)
  obtain r c where ex: "execute_commands commands open_cursor open_connection w = (r, c)"
    by (cases "execute_commands commands open_cursor open_connection w")
  show ?thesis
  proof (cases r)
    case None
    then have "execute_commands commands open_cursor open_connection w = (None, c)"
      using ex by simp
    from setup_database_success [OF connected this] obtain cat where
      "setup_database env w =
        (Inr closed_frame, (print ''Tables created or already exist.'' w)\<lparr>database := cat\<rparr>)"
      and "tables_exist cat"
      by blast
    then show ?thesis by simp
  next
    case (Some e)
    then have "execute_commands commands open_cursor open_connection w = (Some e, c)"
      using ex by simp
    from setup_database_failure [OF connected this] show ?thesis by (simp add: print_def)
  qed
next
  case (refused e)
  then show ?thesis by (simp add: setup_database_no_connection)
qed

lemma setup_database_unchanged:
  assumes "tables_exist (database w)"
  shows "database (snd (setup_database env w)) = database w"
proof (cases rule: DATABASE_URL_cases [of w env])
  case (connected url)
  then show ?thesis
    by (simp add: setup_database_tables_exist [OF _ _ assms] print_def)
next
  case (refused e)
  then show ?thesis by (simp add: setup_database_no_connection)
qed

lemma setup_database_cong:
  assumes "database w' = database w" and "reachable w' = reachable w"
  shows "database (snd (setup_database env w')) = database (snd (setup_database env w))"
proof (cases rule: DATABASE_URL_cases [of w env])
  case (connected url)
  then have connected': "reachable w'" "DATABASE_URL env = Some url"
    using assms(2) by simp_all
  obtain r c where ex: "execute_commands commands open_cursor open_connection w = (r, c)"
    by (cases "execute_commands commands open_cursor open_connection w")
  then have ex': "execute_commands commands open_cursor open_connection w' = (r, c)"
    using assms(1) by (simp add: execute_commands_database [of w' w])
  show ?thesis
  proof (cases r)
    case None
    have exN: "execute_commands commands open_cursor open_connection w = (None, c)"
      using ex None by simp
    have exN': "execute_commands commands open_cursor open_connection w' = (None, c)"
      using ex' None by simp
    from setup_database_success [OF connected exN] obtain cat
      where c: "c = open_connection\<lparr>tx := InTransaction cat\<rparr>"
        and s: "setup_database env w =
          (Inr closed_frame, (print ''Tables created or already exist.'' w)\<lparr>database := cat\<rparr>)"
      by blast
    from setup_database_success [OF connected' exN'] obtain cat'
      where c': "c = open_connection\<lparr>tx := InTransaction cat'\<rparr>"
        and s': "setup_database env w' =
          (Inr closed_frame, (print ''Tables created or already exist.'' w')\<lparr>database := cat'\<rparr>)"
      by blast
    have d: "database (snd (setup_database env w)) = cat"
      by (simp add: s)
    have d': "database (snd (setup_database env w')) = cat'"
      by (simp add: s')
    from c c' have "cat = cat'"
      by (simp add: open_connection_def)
    with d d' show ?thesis by simp
  next
    case (Some e)
    have exS: "execute_commands commands open_cursor open_connection w = (Some e, c)"
      using ex Some by simp
    have exS': "execute_commands commands open_cursor open_connection w' = (Some e, c)"
      using ex' Some by simp
    show ?thesis
      by (simp add: setup_database_failure [OF connected exS]
          setup_database_failure [OF connected' exS'] print_def assms(1))
  qed
next
  case (refused e)
  then have "psycopg2_connect (DATABASE_URL env) w' = Inl e"
    using assms(2) by (auto simp: psycopg2_connect_def split: option.splits if_splits)
  with refused assms(1) show ?thesis
    by (simp add: setup_database_no_connection)
qed

lemma length_serve: "length (fst (serve reqs w)) = length reqs"
proof (induction reqs arbitrary: w)
  case Nil
  show ?case by simp
next
  case (Cons req reqs)
  obtain r w1 where a: "wsgi_app req w = (r, w1)"
    by (cases "wsgi_app req w")
  obtain rs w2 where b: "serve reqs w1 = (rs, w2)"
    by (cases "serve reqs w1")
  have "length rs = length reqs"
    using Cons.IH [of w1] b by simp
  then show ?case
    by (simp add: a b)
qed




section \<open>The HTTP surface\<close>

text \<open>
  Claim C8. A \<^verbatim>\<open>GET\<close> request to \<^verbatim>\<open>/\<close> is answered with status 200 and a JSON body
  that holds the welcome message, whatever its query parameters, headers and body.
\<close>

theorem get_root_welcome:
  assumes "method req = GET" and "path req = ''/''"
  shows "fst (wsgi_app req w) =
    \<lparr>status_code = 200,
     body = Json (JObject [(''message'', JString ''Welcome to the Python MCQ Exam API!'')])\<rparr>"
  using assms
  by (simp add: wsgi_app_def url_match_literal view_functions_eval call0_def index_def jsonify_def)

theorem get_root_welcome_witness:
  "fst (wsgi_app \<lparr>method = GET, path = ''/'', args = [(''lang'', ''en'')], headers = [],
          data = ''ping''\<rparr>
        \<lparr>reachable = False, database = [], stdout = []\<rparr>) =
    \<lparr>status_code = 200,
     body = Json (JObject [(''message'', JString ''Welcome to the Python MCQ Exam API!'')])\<rparr>"
  using get_root_welcome [of "\<lparr>method = GET, path = ''/'', args = [(''lang'', ''en'')],
    headers = [], data = ''ping''\<rparr>" "\<lparr>reachable = False, database = [], stdout = []\<rparr>"]
  by simp



text \<open>
  Claim C9. The response to a request is a function of its method and of what the
  routes make of its path: the endpoint and, for the parameterised rule, the value of
  \<^verbatim>\<open>set_id\<close>. Two requests with the same method that reach the same route with the same
  \<^verbatim>\<open>set_id\<close> (in particular two requests with the same method and path) get the same
  status and the same body, whatever their query parameters, headers and bodies, and
  whatever the state of the world.
\<close>

theorem same_route_same_response:
  assumes "method r1 = method r2"
    and "url_match (method r1) (path r1) = url_match (method r2) (path r2)"
  shows "fst (wsgi_app r1 w1) = fst (wsgi_app r2 w2)"
  using assms by (rule wsgi_app_response)

theorem same_route_same_response_witness:
  "fst (wsgi_app \<lparr>method = PUT, path = ''/api/admin/question-sets/7'', args = [],
          headers = [], data = ''{}''\<rparr> \<lparr>reachable = True, database = [], stdout = []\<rparr>) =
   fst (wsgi_app \<lparr>method = PUT, path = ''/api/admin/question-sets/007'',
          args = [(''force'', ''1'')], headers = [(''Authorization'', ''Bearer x'')],
          data = ''is_active=true''\<rparr> \<lparr>reachable = False, database = [], stdout = [''x'']\<rparr>)"
proof -
  have a: "url_match PUT ''/api/admin/question-sets/7'' =
      Inr (''manage_single_question_set'', [(''set_id'', 7)])"
    using url_match_set_id [OF int_converter_7(1), of PUT] by simp
  have b: "url_match PUT ''/api/admin/question-sets/007'' =
      Inr (''manage_single_question_set'', [(''set_id'', 7)])"
    using url_match_set_id [OF int_converter_7(2), of PUT] by simp
  show ?thesis
    by (rule same_route_same_response) (simp_all add: a b)
qed



text \<open>
  Claim C10. Handling a request leaves the world as it was, the database with it, and
  the response does not depend on the world, so no view reads the database either.
  Over the life of the process the world is what \<^verbatim>\<open>setup_database\<close>, run once at
  import, left: serving any list of requests changes nothing.
\<close>

theorem handlers_leave_world:
  "snd (wsgi_app req w) = w \<and>
   fst (wsgi_app req w) = fst (wsgi_app req w') \<and>
   snd (run_process env reqs w) = snd (setup_database env w)"
proof -
  have "snd (run_process env reqs w) = snd (setup_database env w)"
    using serve_world [of reqs "snd (setup_database env w)"]
    by (auto simp: run_process_def split: prod.splits sum.splits)
  then show ?thesis
    using wsgi_app_world [of req w] wsgi_app_response [of req req w w'] by simp
qed

theorem handlers_leave_world_witness:
  "snd (wsgi_app \<lparr>method = POST, path = ''/api/exams/submit'', args = [], headers = [],
          data = ''answers''\<rparr> \<lparr>reachable = True, database = [(''users'', [])], stdout = []\<rparr>) =
     \<lparr>reachable = True, database = [(''users'', [])], stdout = []\<rparr>"
  using handlers_leave_world [of "\<lparr>method = POST, path = ''/api/exams/submit'', args = [],
    headers = [], data = ''answers''\<rparr>"
    "\<lparr>reachable = True, database = [(''users'', [])], stdout = []\<rparr>"]
  by simp

section \<open>Startup\<close>

text \<open>
  Claim C2. On a reachable database that has none of the tables \<^verbatim>\<open>users\<close>,
  \<^verbatim>\<open>question_sets\<close>, \<^verbatim>\<open>questions\<close> and \<^verbatim>\<open>results\<close>, \<^verbatim>\<open>setup_database\<close> returns
  with the cursor and the connection closed, and the database is the one it found
  followed by exactly the four tables of the statements, in their order; the names of
  the tables and of their columns are the documented ones.
\<close>

theorem setup_database_creates_schema:
  assumes "reachable w" and "DATABASE_URL env = Some url"
    and "list_all (\<lambda>n. map_of (database w) n = None)
           [''users'', ''question_sets'', ''questions'', ''results'']"
  shows "setup_database env w =
      (Inr closed_frame,
       (print ''Tables created or already exist.'' w)\<lparr>database := database w @ schema\<rparr>) \<and>
    map (\<lambda>(n, cols). (n, map fst cols)) schema = documented_schema"
proof -
  have "execute_commands commands open_cursor open_connection w =
      (None, open_connection\<lparr>tx := InTransaction (database w @ schema)\<rparr>)"
    using execute_commands_fresh [of "database w" w] assms(3)
    by (simp add: open_cursor_def open_connection_def)
  then have "setup_database env w =
      (Inr closed_frame,
       (print ''Tables created or already exist.'' w)\<lparr>database := database w @ schema\<rparr>)"
    by (simp add: setup_database_connected [OF assms(1,2)] finally_block_InTransaction)
  moreover have "map (\<lambda>(n, cols). (n, map fst cols)) schema = documented_schema"
    by (simp add: schema_def commands_def documented_schema_def)
  ultimately show ?thesis by simp
qed

theorem setup_database_creates_schema_witness:
  "database (snd (setup_database [(''DATABASE_URL'', ''postgresql://db/mcq'')]
     \<lparr>reachable = True, database = [], stdout = []\<rparr>)) = schema \<and>
   map fst schema = [''users'', ''question_sets'', ''questions'', ''results'']"
proof -
  have u: "DATABASE_URL [(''DATABASE_URL'', ''postgresql://db/mcq'')] = Some ''postgresql://db/mcq''"
    by (simp add: DATABASE_URL_def environ_get_def)
  have "map fst schema = [''users'', ''question_sets'', ''questions'', ''results'']"
    by (simp add: schema_def commands_def)
  then show ?thesis
    using setup_database_creates_schema [of "\<lparr>reachable = True, database = [], stdout = []\<rparr>"
      "[(''DATABASE_URL'', ''postgresql://db/mcq'')]" "''postgresql://db/mcq''"] u
    by simp
qed

text \<open>
  Claim C3. When the four tables exist, \<^verbatim>\<open>setup_database\<close> returns and leaves the
  database as it was. From any database, reachable or not, a second run leaves the
  database as the first run left it: running startup twice is running it once.
\<close>

theorem setup_database_idempotent:
  "(tables_exist (database w) \<longrightarrow>
      (\<exists>fr. fst (setup_database env w) = Inr fr) \<and>
      database (snd (setup_database env w)) = database w) \<and>
   database (snd (setup_database env (snd (setup_database env w)))) =
     database (snd (setup_database env w))"
proof -
  let ?w1 = "snd (setup_database env w)"
  have twice: "database (snd (setup_database env ?w1)) = database ?w1"
    using setup_database_result [of env w]
  proof
    assume same: "database ?w1 = database w"
    have "database (snd (setup_database env ?w1)) = database (snd (setup_database env w))"
      by (rule setup_database_cong [OF same setup_database_reachable])
    then show ?thesis .
  next
    assume "tables_exist (database ?w1)"
    then show ?thesis by (rule setup_database_unchanged)
  qed
  show ?thesis
    using twice setup_database_returns [of env w] setup_database_unchanged [of w env]
    by blast
qed

theorem setup_database_idempotent_witness:
  "tables_exist [(''users'', []), (''question_sets'', []), (''questions'', []), (''results'', [])] \<and>
   database (snd (setup_database [(''DATABASE_URL'', ''postgresql://db/mcq'')]
     \<lparr>reachable = True,
      database = [(''users'', []), (''question_sets'', []), (''questions'', []), (''results'', [])],
      stdout = []\<rparr>)) =
     [(''users'', []), (''question_sets'', []), (''questions'', []), (''results'', [])]"
proof -
  have t: "tables_exist
      [(''users'', []), (''question_sets'', []), (''questions'', []), (''results'', [])]"
    by (simp add: tables_exist_def commands_def)
  show ?thesis
    using t setup_database_idempotent [of "\<lparr>reachable = True,
      database = [(''users'', []), (''question_sets'', []), (''questions'', []), (''results'', [])],
      stdout = []\<rparr>" "[(''DATABASE_URL'', ''postgresql://db/mcq'')]"]
    by simp
qed

text \<open>
  Claim C4. When no connection can be made (the server refuses, or the environment has
  no \<^verbatim>\<open>DATABASE_URL\<close>), \<^verbatim>\<open>setup_database\<close> prints the error and the line that it
  aborts, and returns: no exception leaves it. The process goes on and answers every
  request, on a database that is as it was.
\<close>

theorem setup_database_unreachable:
  assumes "psycopg2_connect (DATABASE_URL env) w = Inl e"
  shows "setup_database env w =
      (Inr \<lparr>conn = None, cur = None\<rparr>,
       w\<lparr>stdout := stdout w @ [''Database connection error: '' @ str_error e,
          ''Could not connect to the database. Aborting setup.'']\<rparr>) \<and>
    (\<exists>rs w'. run_process env reqs w = (Inr rs, w') \<and> length rs = length reqs \<and>
       database w' = database w)"
proof -
  let ?w1 = "w\<lparr>stdout := stdout w @ [''Database connection error: '' @ str_error e,
          ''Could not connect to the database. Aborting setup.'']\<rparr>"
  have s: "setup_database env w = (Inr \<lparr>conn = None, cur = None\<rparr>, ?w1)"
    by (rule setup_database_no_connection [OF assms])
  obtain rs w' where sv: "serve reqs ?w1 = (rs, w')"
    by (cases "serve reqs ?w1")
  have "w' = ?w1"
    using serve_world [of reqs ?w1] sv by simp
  moreover have "length rs = length reqs"
    using length_serve [of reqs ?w1] sv by simp
  moreover have "run_process env reqs w = (Inr rs, w')"
    unfolding run_process_def by (simp only: s sv prod.case sum.case)
  ultimately show ?thesis
    using s by simp
qed

theorem setup_database_unreachable_witness:
  "psycopg2_connect (DATABASE_URL [(''DATABASE_URL'', ''postgresql://db/mcq'')])
     \<lparr>reachable = False, database = [], stdout = []\<rparr> =
     Inl (OperationalError ''could not connect to server'') \<and>
   setup_database [(''DATABASE_URL'', ''postgresql://db/mcq'')]
     \<lparr>reachable = False, database = [], stdout = []\<rparr> =
     (Inr \<lparr>conn = None, cur = None\<rparr>,
      \<lparr>reachable = False, database = [],
       stdout = [''Database connection error: could not connect to server'',
         ''Could not connect to the database. Aborting setup.'']\<rparr>)"
proof -
  have c: "psycopg2_connect (DATABASE_URL [(''DATABASE_URL'', ''postgresql://db/mcq'')])
     \<lparr>reachable = False, database = [], stdout = []\<rparr> =
     Inl (OperationalError ''could not connect to server'')"
    by (simp add: psycopg2_connect_def DATABASE_URL_def environ_get_def)
  show ?thesis
    using c setup_database_unreachable [OF c, of "[]"]
    by simp
qed




section \<open>Configuration\<close>




end
